theory Spec2Isabelle
  imports Main "HOL-Library.Sublist"
begin

section \<open>Values\<close>

text \<open>
  The server of \<^verbatim>\<open>src/mcp_server/main.py\<close> handles Python objects decoded from
  JSON: \<^verbatim>\<open>None\<close>, \<^verbatim>\<open>bool\<close>, \<^verbatim>\<open>int\<close>, \<^verbatim>\<open>float\<close>, \<^verbatim>\<open>str\<close>,
  \<^verbatim>\<open>list\<close> and \<^verbatim>\<open>dict\<close> with \<^verbatim>\<open>str\<close> keys.

  \<^item> An \<^verbatim>\<open>int\<close> is unbounded, as in Python.
  \<^item> No function of the program computes with a \<^verbatim>\<open>float\<close>; a float is only passed
    on or formatted. It is carried as the text that \<^verbatim>\<open>repr\<close> gives for it
    (\<^verbatim>\<open>1.5\<close>, \<^verbatim>\<open>1e+16\<close>, \<^verbatim>\<open>nan\<close>), floating-point arithmetic itself is not
    modelled.
  \<^item> A \<^verbatim>\<open>str\<close> is a list of characters with code points below 256.
  \<^item> A \<^verbatim>\<open>dict\<close> is the list of its items in insertion order (the order \<^verbatim>\<open>str\<close>
    prints them in); a key occurs once in the items of a Python dict.

  The text of an \<^verbatim>\<open>int\<close> is limited by the interpreter: \<^verbatim>\<open>str\<close> of an
  \<^verbatim>\<open>int\<close> of more than 4300 decimal digits raises \<^verbatim>\<open>ValueError\<close>
  (\<^verbatim>\<open>sys.int_info.default_max_str_digits\<close>, which the program does not change), and
  so does \<^verbatim>\<open>str\<close> of a list or dict that holds one. The JSON decoder refuses such
  a number in a body in the same way, a request object built in Python can hold one.
  The recursion depth and the memory of the interpreter are not modelled.
\<close>

datatype json =
    JNull
  | JBool bool
  | JInt int
  | JFloat string
  | JStr string
  | JList "json list"
  | JObj "(string \<times> json) list"

type_synonym dict = "(string \<times> json) list"

text \<open>\<^verbatim>\<open>d.get(key, default)\<close>: the default only where the key is absent.\<close>

definition dict_get :: "dict \<Rightarrow> string \<Rightarrow> json \<Rightarrow> json" where
  "dict_get d key dflt = (case map_of d key of None \<Rightarrow> dflt | Some v \<Rightarrow> v)"

subsection \<open>Text helpers\<close>

text \<open>\<^verbatim>\<open>sep.join(xs)\<close>.\<close>

fun join :: "string \<Rightarrow> string list \<Rightarrow> string" where
  "join sep [] = []"
| "join sep [x] = x"
| "join sep (x # y # ys) = x @ sep @ join sep (y # ys)"

text \<open>Decimal digits of a natural number, most significant first.\<close>

fun str_nat :: "nat \<Rightarrow> string" where
  "str_nat n =
     (if n < 10 then [''0123456789'' ! n]
      else str_nat (n div 10) @ [''0123456789'' ! (n mod 10)])"

declare str_nat.simps [simp del]

definition str_int :: "int \<Rightarrow> string" where
  "str_int i = (if i < 0 then CHR ''-'' # str_nat (nat (- i)) else str_nat (nat i))"

text \<open>Two lower-case hexadecimal digits, for the escape \<^verbatim>\<open>\xNN\<close>.\<close>

definition hex2 :: "nat \<Rightarrow> string" where
  "hex2 n = [''0123456789abcdef'' ! (n div 16), ''0123456789abcdef'' ! (n mod 16)]"

text \<open>
  \<^verbatim>\<open>str.isprintable\<close> on the code points from 128 to 255: the C1 controls
  (128 to 159), the no-break space (160) and the soft hyphen (173) are not printable.
\<close>

definition isprintable_high :: "nat \<Rightarrow> bool" where
  "isprintable_high n \<longleftrightarrow> 160 < n \<and> n \<noteq> 173"

text \<open>
  One character inside \<^verbatim>\<open>repr\<close> of a \<^verbatim>\<open>str\<close>. The characters written by code
  are the backslash (0x5C), tab (0x09), line feed (0x0A) and carriage return (0x0D).
\<close>

definition repr_char :: "char \<Rightarrow> char \<Rightarrow> string" where
  "repr_char quote ch =
     (let n = (of_char ch :: nat) in
      if ch = quote \<or> ch = CHR 0x5C then [CHR 0x5C, ch]
      else if ch = CHR 0x09 then [CHR 0x5C, CHR ''t'']
      else if ch = CHR 0x0A then [CHR 0x5C, CHR ''n'']
      else if ch = CHR 0x0D then [CHR 0x5C, CHR ''r'']
      else if n < 32 \<or> n = 127 then [CHR 0x5C, CHR ''x''] @ hex2 n
      else if n < 127 then [ch]
      else if isprintable_high n then [ch]
      else [CHR 0x5C, CHR ''x''] @ hex2 n)"

text \<open>
  \<^verbatim>\<open>repr\<close> of a \<^verbatim>\<open>str\<close>: in single quotes (0x27), unless the text has a single
  quote and no double quote (0x22), then in double quotes.
\<close>

definition repr_str :: "string \<Rightarrow> string" where
  "repr_str s =
     (let quote = (if CHR 0x27 \<in> set s \<and> CHR 0x22 \<notin> set s then CHR 0x22 else CHR 0x27)
      in [quote] @ concat (map (repr_char quote) s) @ [quote])"

section \<open>Exceptions\<close>

text \<open>
  The program looks at a raised object in two ways: \<^verbatim>\<open>except Exception\<close> asks whether
  it is an instance of \<^verbatim>\<open>Exception\<close> (\<^verbatim>\<open>SystemExit\<close>, \<^verbatim>\<open>KeyboardInterrupt\<close> and
  the other direct children of \<^verbatim>\<open>BaseException\<close> are not), and \<^verbatim>\<open>str(e)\<close> reads its
  message. A raised object is these two observations.
\<close>

datatype py_exc = Raised (is_Exception: bool) (str_e: string)

text \<open>\<^verbatim>\<open>ValueError(msg)\<close>, an instance of \<^verbatim>\<open>Exception\<close>.\<close>

definition ValueError :: "string \<Rightarrow> py_exc" where
  "ValueError msg = Raised True msg"

text \<open>
  What leaves \<^verbatim>\<open>invoke_model\<close> when it does not return: the
  \<^verbatim>\<open>HTTPException(status_code, detail)\<close> it raises itself, or a raised object that its
  \<^verbatim>\<open>except\<close> clause did not catch.
\<close>

datatype raise = HTTPException (status_code: int) (detail: json) | Uncaught py_exc

section \<open>Python's \<^verbatim>\<open>str\<close> and \<^verbatim>\<open>repr\<close> on these values\<close>

text \<open>
  \<^verbatim>\<open>str\<close> of an \<^verbatim>\<open>int\<close>: the digits are counted without the sign, and more than
  \<open>int_max_str_digits\<close> of them raise \<^verbatim>\<open>ValueError\<close> with the interpreter's message.
\<close>

definition int_max_str_digits :: nat where
  "int_max_str_digits = 4300"

definition int_max_str_digits_message :: string where
  "int_max_str_digits_message =
     ''Exceeds the limit (4300 digits) for integer string conversion; ''
     @ ''use sys.set_int_max_str_digits() to increase the limit''"

definition int_to_str :: "int \<Rightarrow> py_exc + string" where
  "int_to_str i =
     (if int_max_str_digits < length (str_nat (nat \<bar>i\<bar>))
      then Inl (ValueError int_max_str_digits_message)
      else Inr (str_int i))"

text \<open>
  The texts of the elements of a list, left to right; the first element whose
  conversion raises ends it with that exception.
\<close>

fun collect :: "('e + 'a) list \<Rightarrow> 'e + 'a list" where
  "collect [] = Inr []"
| "collect (x # xs) =
     (case x of
        Inl e \<Rightarrow> Inl e
      | Inr v \<Rightarrow> (case collect xs of Inl e \<Rightarrow> Inl e | Inr vs \<Rightarrow> Inr (v # vs)))"

fun py_repr :: "json \<Rightarrow> py_exc + string" where
  "py_repr JNull = Inr ''None''"
| "py_repr (JBool b) = Inr (if b then ''True'' else ''False'')"
| "py_repr (JInt i) = int_to_str i"
| "py_repr (JFloat r) = Inr r"
| "py_repr (JStr s) = Inr (repr_str s)"
| "py_repr (JList xs) =
     (case collect (map py_repr xs) of
        Inl e \<Rightarrow> Inl e
      | Inr ts \<Rightarrow> Inr (''['' @ join '', '' ts @ '']''))"
| "py_repr (JObj kvs) =
     (case collect (map (\<lambda>(k, v). case py_repr v of
                                      Inl e \<Rightarrow> Inl e
                                    | Inr t \<Rightarrow> Inr (repr_str k @ '': '' @ t)) kvs) of
        Inl e \<Rightarrow> Inl e
      | Inr ts \<Rightarrow> Inr (''{'' @ join '', '' ts @ ''}''))"

text \<open>
  \<^verbatim>\<open>str(v)\<close>, which is also what a replacement field \<^verbatim>\<open>{v}\<close> of an f-string
  puts in: a \<^verbatim>\<open>str\<close> stands for itself, every other value as \<^verbatim>\<open>repr\<close> shows it.
\<close>

fun py_str :: "json \<Rightarrow> py_exc + string" where
  "py_str (JStr s) = Inr s"
| "py_str v = py_repr v"

section \<open>Model handlers\<close>

text \<open>
  A handler is called with two references, to the context \<^verbatim>\<open>dict\<close> and to the
  parameters (\<^verbatim>\<open>None\<close> or a \<^verbatim>\<open>dict\<close>), and runs in a process whose other state
  (module globals, anything that outlives the call) is \<open>'s\<close>. A call gives what it
  returned or raised, and the context object, the parameters object and the state as
  they are after the call.
\<close>

type_synonym 's handler =
  "dict \<Rightarrow> dict option \<Rightarrow> 's \<Rightarrow> (py_exc + json) \<times> dict \<times> dict option \<times> 's"

definition echo_model_handler :: "'s handler" where
  "echo_model_handler context parameters s =
     (Inr (JObj [(''echo'', JObj context)]), context, parameters, s)"

text \<open>
  The f-string \<^verbatim>\<open>f"Hello, {name}!"\<close> formats \<open>name\<close> with \<^verbatim>\<open>str\<close>; when that
  raises, the handler raises the same exception.
\<close>

definition greeting_model_handler :: "'s handler" where
  "greeting_model_handler context parameters s =
     (let name = dict_get context ''name'' (JStr ''World'')
      in (case py_str name of
            Inl e \<Rightarrow> Inl e
          | Inr txt \<Rightarrow> Inr (JObj [(''greeting'', JStr (''Hello, '' @ txt @ ''!''))]),
          context, parameters, s))"
section \<open>Model registry\<close>

definition MODEL_REGISTRY :: "(string \<times> 's handler) list" where
  "MODEL_REGISTRY =
     [(''echo-model'', echo_model_handler),
      (''greeting-model'', greeting_model_handler)]"

section \<open>The request and the endpoint\<close>

record MCPRequest =
  model_id :: string
  "context" :: dict
  parameters :: "dict option"

text \<open>
  The body of \<^verbatim>\<open>invoke_model\<close>, with the module global \<^verbatim>\<open>MODEL_REGISTRY\<close> that it
  reads as the argument \<open>registry\<close>. The result is what the function returned or
  raised, the request object and the state after the call.
\<close>

definition invoke_with ::
  "(string \<times> 's handler) list \<Rightarrow> MCPRequest \<Rightarrow> 's \<Rightarrow> (raise + json) \<times> MCPRequest \<times> 's" where
  "invoke_with registry request s =
     (case map_of registry (model_id request) of
        None \<Rightarrow>
          (Inl (HTTPException 404
             (JObj [(''model_id'', JStr (model_id request)),
                    (''error'', JObj [(''code'', JInt 404),
                       (''message'', JStr (''Model '' @ [CHR 0x27] @ model_id request
                                             @ [CHR 0x27] @ '' not found.''))])])),
           request, s)
      | Some handler \<Rightarrow>
          (case handler (context request) (parameters request) s of
             (outcome, context', parameters', s') \<Rightarrow>
               (case outcome of
                  Inr result \<Rightarrow>
                    Inr (JObj [(''model_id'', JStr (model_id request)), (''result'', result)])
                | Inl e \<Rightarrow>
                    if is_Exception e
                    then Inl (HTTPException 500
                           (JObj [(''model_id'', JStr (model_id request)),
                                  (''error'', JObj [(''code'', JInt 500),
                                                    (''message'', JStr (str_e e))])]))
                    else Inl (Uncaught e),
                request\<lparr>context := context', parameters := parameters'\<rparr>, s')))"

definition invoke_model :: "MCPRequest \<Rightarrow> 's \<Rightarrow> (raise + json) \<times> MCPRequest \<times> 's" where
  "invoke_model = invoke_with MODEL_REGISTRY"

section \<open>Validation of the request body\<close>

text \<open>
  The framework builds the \<^verbatim>\<open>MCPRequest\<close> from the decoded JSON body before it calls
  \<^verbatim>\<open>invoke_model\<close>, field by field as the class declares them: \<^verbatim>\<open>model_id: str\<close>
  and \<^verbatim>\<open>context: Dict[str, Any]\<close> are required, \<^verbatim>\<open>parameters\<close> is a dict or
  \<^verbatim>\<open>None\<close> and is \<^verbatim>\<open>None\<close> when the body has no such field. No field carries a
  further constraint (no minimal length, no pattern). \<open>None\<close> is the validation error
  that the framework answers with status 422. A field whose JSON value is not of the
  declared type is such an error (pydantic 2; pydantic 1 turns a number given for a
  \<^verbatim>\<open>str\<close> into text), and no theorem below rests on a body of that kind.
\<close>

definition validate_MCPRequest :: "json \<Rightarrow> MCPRequest option" where
  "validate_MCPRequest body =
     (case body of
        JObj items \<Rightarrow>
          (case (map_of items ''model_id'', map_of items ''context'') of
             (Some (JStr m), Some (JObj c)) \<Rightarrow>
               (case map_of items ''parameters'' of
                  None \<Rightarrow> Some \<lparr>model_id = m, context = c, parameters = None\<rparr>
                | Some JNull \<Rightarrow> Some \<lparr>model_id = m, context = c, parameters = None\<rparr>
                | Some (JObj p) \<Rightarrow> Some \<lparr>model_id = m, context = c, parameters = Some p\<rparr>
                | Some _ \<Rightarrow> None)
           | _ \<Rightarrow> None)
      | _ \<Rightarrow> None)"

text \<open>
  \<^verbatim>\<open>POST /invoke\<close>: validation, then \<^verbatim>\<open>invoke_model\<close> on the validated request.
  \<open>None\<close> is the 422 answer, given without a call of \<^verbatim>\<open>invoke_model\<close>. The body
  is the one the JSON decoder has produced.
\<close>

definition post_invoke :: "json \<Rightarrow> 's \<Rightarrow> (raise + json) option \<times> 's" where
  "post_invoke body s =
     (case validate_MCPRequest body of
        None \<Rightarrow> (None, s)
      | Some request \<Rightarrow>
          (case invoke_model request s of (outcome, request', s') \<Rightarrow> (Some outcome, s')))"

text \<open>The JSON body a client sends for a request: \<^verbatim>\<open>parameters\<close> left out when absent.\<close>

definition body_of :: "MCPRequest \<Rightarrow> json" where
  "body_of request =
     JObj ([(''model_id'', JStr (model_id request)), (''context'', JObj (context request))]
           @ (case parameters request of None \<Rightarrow> [] | Some p \<Rightarrow> [(''parameters'', JObj p)]))"

section \<open>The limit on the digits of an int\<close>

text \<open>
  A number has more than \<open>k\<close> decimal digits exactly when it is at least \<open>10 ^ k\<close>.
  So \<^verbatim>\<open>str\<close> of an \<^verbatim>\<open>int\<close> raises exactly from \<open>10 ^ 4300\<close> on, in absolute
  value, and \<^verbatim>\<open>ValueError\<close> with the message of the limit is all that \<^verbatim>\<open>repr\<close> and
  \<^verbatim>\<open>str\<close> raise on any value.
\<close>

lemma length_str_nat_gt: "10 ^ k \<le> n \<Longrightarrow> k < length (str_nat n)"
proof (induction k arbitrary: n)
  case 0
  then show ?case by (subst str_nat.simps) simp
next
  case (Suc k)
  have "(10::nat) \<le> 10 ^ Suc k" by (rule self_le_power) simp_all
  then have ge: "10 \<le> n" using Suc.prems by (rule order_trans)
  from Suc.prems have "10 ^ k \<le> n div 10" by simp
  with Suc.IH [of "n div 10"] ge show ?case
    by (subst str_nat.simps) simp
qed

lemma length_str_nat_le: "n < 10 ^ Suc k \<Longrightarrow> length (str_nat n) \<le> Suc k"
proof (induction k arbitrary: n)
  case 0
  then show ?case by (subst str_nat.simps) simp
next
  case (Suc k)
  then have "n div 10 < 10 ^ Suc k" by (simp add: less_mult_imp_div_less)
  with Suc.IH [of "n div 10"] show ?case
    by (subst str_nat.simps) simp
qed

lemma int_max_str_digits_pos: "\<exists>k. int_max_str_digits = Suc k"
  unfolding int_max_str_digits_def by presburger

lemma int_to_str_limit:
  "int_to_str i =
     (if 10 ^ int_max_str_digits \<le> \<bar>i\<bar> then Inl (ValueError int_max_str_digits_message)
      else Inr (str_int i))"
proof (cases "10 ^ int_max_str_digits \<le> \<bar>i\<bar>")
  case True
  then have "int (10 ^ int_max_str_digits) \<le> \<bar>i\<bar>" by simp
  then have "(10::nat) ^ int_max_str_digits \<le> nat \<bar>i\<bar>" by linarith
  then have "int_max_str_digits < length (str_nat (nat \<bar>i\<bar>))" by (rule length_str_nat_gt)
  with True show ?thesis by (simp add: int_to_str_def)
next
  case False
  obtain k where k: "int_max_str_digits = Suc k" using int_max_str_digits_pos by blast
  from False have "\<bar>i\<bar> < int (10 ^ int_max_str_digits)" by simp
  then have "nat \<bar>i\<bar> < 10 ^ int_max_str_digits" by linarith
  then have "length (str_nat (nat \<bar>i\<bar>)) \<le> int_max_str_digits"
    unfolding k by (rule length_str_nat_le)
  with False show ?thesis by (simp add: int_to_str_def)
qed

lemma collect_Inl: "collect xs = Inl e \<Longrightarrow> Inl e \<in> set xs"
  by (induction xs) (auto split: sum.splits)

lemma py_repr_raises: "py_repr v = Inl e \<Longrightarrow> e = ValueError int_max_str_digits_message"
proof (induction v arbitrary: e rule: py_repr.induct)
  case (3 i)
  then show ?case by (simp add: int_to_str_limit split: if_splits)
next
  case (6 xs)
  then have "collect (map py_repr xs) = Inl e" by (simp split: sum.splits)
  then have "Inl e \<in> set (map py_repr xs)" by (rule collect_Inl)
  with "6.IH" show ?case by auto
next
  case (7 kvs)
  let ?f = "\<lambda>(k, v). case py_repr v of Inl e \<Rightarrow> Inl e | Inr t \<Rightarrow> Inr (repr_str k @ '': '' @ t)"
  from "7.prems" have "collect (map ?f kvs) = Inl e" by (simp split: sum.splits)
  then have "Inl e \<in> set (map ?f kvs)" by (rule collect_Inl)
  then obtain k v where kv: "(k, v) \<in> set kvs" and "?f (k, v) = Inl e" by auto
  then have "py_repr v = Inl e" by (simp split: sum.splits)
  with "7.IH" kv show ?case by auto
qed simp_all

lemma py_str_raises: "py_str v = Inl e \<Longrightarrow> e = ValueError int_max_str_digits_message"
proof (cases "\<exists>s. v = JStr s")
  case True
  then show "py_str v = Inl e \<Longrightarrow> ?thesis" by auto
next
  case False
  then have "py_str v = py_repr v" by (cases v) simp_all
  then show "py_str v = Inl e \<Longrightarrow> ?thesis" by (simp add: py_repr_raises del: py_repr.simps)
qed

section \<open>Dispatch\<close>

lemma map_of_MODEL_REGISTRY:
  "map_of MODEL_REGISTRY m =
     (if m = ''echo-model'' then Some echo_model_handler
      else if m = ''greeting-model'' then Some greeting_model_handler
      else None)"
  by (simp add: MODEL_REGISTRY_def)

text \<open>What the greeting handler raises is an instance of \<^verbatim>\<open>Exception\<close>.\<close>

lemma greeting_raises_Exception:
  "fst (greeting_model_handler c p s) = Inl e \<Longrightarrow> is_Exception e"
  by (auto simp: greeting_model_handler_def Let_def ValueError_def
      split: sum.splits dest: py_str_raises)

text \<open>The outcome of \<^verbatim>\<open>invoke_model\<close>, by the model id of the request.\<close>

lemma invoke_model_outcome:
  "fst (invoke_model r t) =
     (if model_id r = ''echo-model''
      then Inr (JObj [(''model_id'', JStr (model_id r)),
                      (''result'', JObj [(''echo'', JObj (context r))])])
      else if model_id r = ''greeting-model''
      then (case py_str (dict_get (context r) ''name'' (JStr ''World'')) of
              Inr txt \<Rightarrow>
                Inr (JObj [(''model_id'', JStr (model_id r)),
                           (''result'', JObj [(''greeting'', JStr (''Hello, '' @ txt @ ''!''))])])
            | Inl e \<Rightarrow>
                Inl (HTTPException 500
                  (JObj [(''model_id'', JStr (model_id r)),
                         (''error'', JObj [(''code'', JInt 500), (''message'', JStr (str_e e))])])))
      else Inl (HTTPException 404
             (JObj [(''model_id'', JStr (model_id r)),
                    (''error'', JObj [(''code'', JInt 404),
                       (''message'', JStr (''Model '' @ [CHR 0x27] @ model_id r
                                             @ [CHR 0x27] @ '' not found.''))])])))"
proof -
  have "is_Exception e" if "py_str (dict_get (context r) ''name'' (JStr ''World'')) = Inl e" for e
    using py_str_raises [OF that] by (simp add: ValueError_def)
  then show ?thesis
    by (auto simp: invoke_model_def invoke_with_def map_of_MODEL_REGISTRY
        echo_model_handler_def greeting_model_handler_def Let_def split: sum.splits)
qed

lemma invoke_model_never_uncaught: "fst (invoke_model r t) \<noteq> Inl (Uncaught x)"
  by (auto simp: invoke_model_outcome split: sum.splits)

text \<open>
  C1. For a model id \<open>m\<close> that is a key of the registry, with handler \<open>h\<close>, and a
  context \<open>c\<close> and parameters \<open>p\<close> on which \<open>h\<close> returns a value \<open>v\<close>:
  \<open>invoke_model\<close> returns the success envelope whose \<open>model_id\<close> is \<open>m\<close> and whose
  \<open>result\<close> is \<open>v\<close>.
\<close>

theorem invoke_registered_success:
  assumes "map_of MODEL_REGISTRY m = Some h" and "fst (h c p s) = Inr v"
  shows "fst (invoke_model \<lparr>model_id = m, context = c, parameters = p\<rparr> s)
           = Inr (JObj [(''model_id'', JStr m), (''result'', v)])"
proof -
  consider (echo) "m = ''echo-model''" "h = echo_model_handler"
    | (greeting) "m = ''greeting-model''" "h = greeting_model_handler"
    using assms(1) by (auto simp: map_of_MODEL_REGISTRY split: if_splits)
  then show ?thesis
  proof cases
    case echo
    with assms(2) show ?thesis
      by (auto simp: invoke_model_outcome echo_model_handler_def)
  next
    case greeting
    with assms(2) show ?thesis
      by (auto simp: invoke_model_outcome greeting_model_handler_def Let_def split: sum.splits)
  qed
qed

theorem invoke_registered_success_witness:
  "map_of MODEL_REGISTRY ''echo-model'' = Some (echo_model_handler :: nat handler) \<and>
   fst (echo_model_handler [(''key'', JStr ''value'')] None (0::nat))
     = Inr (JObj [(''echo'', JObj [(''key'', JStr ''value'')])]) \<and>
   fst (invoke_model \<lparr>model_id = ''echo-model'', context = [(''key'', JStr ''value'')],
                       parameters = None\<rparr> (0::nat))
     = Inr (JObj [(''model_id'', JStr ''echo-model''),
                  (''result'', JObj [(''echo'', JObj [(''key'', JStr ''value'')])])])"
proof -
  have h1: "map_of MODEL_REGISTRY ''echo-model'' = Some (echo_model_handler :: nat handler)"
    by (simp add: MODEL_REGISTRY_def)
  have h2: "fst (echo_model_handler [(''key'', JStr ''value'')] None (0::nat))
      = Inr (JObj [(''echo'', JObj [(''key'', JStr ''value'')])])"
    by (simp add: echo_model_handler_def)
  show ?thesis
    using h1 h2 invoke_registered_success [OF h1 h2] by simp
qed

text \<open>
  A registered model id and a context on which \<open>invoke_model\<close> returns no success
  envelope: \<^verbatim>\<open>greeting-model\<close> with \<^verbatim>\<open>name\<close> bound to the \<^verbatim>\<open>int\<close> \<open>- 10 ^ 4300\<close>, of
  4301 digits. The handler raises \<^verbatim>\<open>ValueError\<close>, and the outcome is the 500 error.
\<close>

theorem invoke_registered_success_counterexample:
  "map_of MODEL_REGISTRY ''greeting-model'' = Some (greeting_model_handler :: nat handler) \<and>
   fst (greeting_model_handler [(''name'', JInt (- (10 ^ int_max_str_digits)))] None (0::nat))
     = Inl (ValueError int_max_str_digits_message) \<and>
   fst (invoke_model \<lparr>model_id = ''greeting-model'',
                       context = [(''name'', JInt (- (10 ^ int_max_str_digits)))],
                       parameters = None\<rparr> (0::nat))
     = Inl (HTTPException 500
         (JObj [(''model_id'', JStr ''greeting-model''),
                (''error'', JObj [(''code'', JInt 500),
                                  (''message'', JStr int_max_str_digits_message)])]))"
  by (simp add: map_of_MODEL_REGISTRY invoke_model_outcome greeting_model_handler_def
      dict_get_def int_to_str_limit ValueError_def)

text \<open>
  C2. For a model id \<open>m\<close> that is not a key of the registry, whatever the registry
  holds: the outcome is the \<open>HTTPException\<close> with status 404 whose detail carries \<open>m\<close>
  under \<open>model_id\<close> and, under \<open>error\<close>, the code 404 and the message
  \<^verbatim>\<open>Model '<m>' not found.\<close>, which contains \<open>m\<close> and the words \<^verbatim>\<open>not found\<close>. No
  handler is invoked: the request and the state are as before the call, and the result
  is the one the empty registry gives.
\<close>

theorem invoke_unknown_model_not_found:
  assumes "m \<notin> fst ` set registry"
  shows "\<exists>msg.
           invoke_with registry \<lparr>model_id = m, context = c, parameters = p\<rparr> s
             = (Inl (HTTPException 404
                  (JObj [(''model_id'', JStr m),
                         (''error'', JObj [(''code'', JInt 404), (''message'', JStr msg)])])),
                \<lparr>model_id = m, context = c, parameters = p\<rparr>, s)
           \<and> msg = ''Model '' @ [CHR 0x27] @ m @ [CHR 0x27] @ '' not found.''
           \<and> sublist m msg \<and> sublist ''not found'' msg
           \<and> invoke_with registry \<lparr>model_id = m, context = c, parameters = p\<rparr> s
               = invoke_with [] \<lparr>model_id = m, context = c, parameters = p\<rparr> s"
proof -
  let ?msg = "''Model '' @ [CHR 0x27] @ m @ [CHR 0x27] @ '' not found.''"
  have miss: "map_of registry m = None"
    using assms by (simp add: map_of_eq_None_iff)
  have 1: "sublist m ?msg"
    by (metis sublist_appendI append.assoc)
  have "?msg = (''Model '' @ [CHR 0x27] @ m @ [CHR 0x27] @ '' '') @ ''not found'' @ ''.''"
    by simp
  then have 2: "sublist ''not found'' ?msg"
    by (metis sublist_appendI)
  show ?thesis
    using miss 1 2 by (simp add: invoke_with_def)
qed

theorem invoke_unknown_model_not_found_witness:
  "''non-existent-model'' \<notin> fst ` set (MODEL_REGISTRY :: (string \<times> nat handler) list) \<and>
   fst (invoke_model \<lparr>model_id = ''non-existent-model'', context = [], parameters = None\<rparr> (0::nat))
     = Inl (HTTPException 404
         (JObj [(''model_id'', JStr ''non-existent-model''),
                (''error'', JObj [(''code'', JInt 404),
                   (''message'', JStr (''Model '' @ [CHR 0x27] @ ''non-existent-model''
                                         @ [CHR 0x27] @ '' not found.''))])]))"
proof -
  have h: "''non-existent-model'' \<notin> fst ` set (MODEL_REGISTRY :: (string \<times> nat handler) list)"
    by (simp add: MODEL_REGISTRY_def)
  show ?thesis
    using h invoke_unknown_model_not_found [OF h, of "[]" None 0]
    by (auto simp: invoke_model_def)
qed

text \<open>
  C3. When the handler found for a key \<open>m\<close> of the registry raises \<open>e\<close> on a request,
  \<open>invoke_model\<close> catches it: the outcome is the \<open>HTTPException\<close> with status 500 whose
  detail carries \<open>m\<close> and \<^verbatim>\<open>str(e)\<close>. No request makes \<open>invoke_model\<close> let a raised
  object through uncaught.
\<close>

theorem invoke_handler_raises:
  assumes "map_of MODEL_REGISTRY m = Some h" and "fst (h c p (s::'s)) = Inl e"
  shows "fst (invoke_model \<lparr>model_id = m, context = c, parameters = p\<rparr> s)
           = Inl (HTTPException 500
               (JObj [(''model_id'', JStr m),
                      (''error'', JObj [(''code'', JInt 500), (''message'', JStr (str_e e))])]))
         \<and> (\<forall>r (t::'s) x. fst (invoke_model r t) \<noteq> Inl (Uncaught x))"
proof -
  consider (echo) "m = ''echo-model''" "h = echo_model_handler"
    | (greeting) "m = ''greeting-model''" "h = greeting_model_handler"
    using assms(1) by (auto simp: map_of_MODEL_REGISTRY split: if_splits)
  then have "fst (invoke_model \<lparr>model_id = m, context = c, parameters = p\<rparr> s)
           = Inl (HTTPException 500
               (JObj [(''model_id'', JStr m),
                      (''error'', JObj [(''code'', JInt 500), (''message'', JStr (str_e e))])]))"
  proof cases
    case echo
    with assms(2) show ?thesis by (simp add: echo_model_handler_def)
  next
    case greeting
    with assms(2) show ?thesis
      by (auto simp: invoke_model_outcome greeting_model_handler_def Let_def split: sum.splits)
  qed
  then show ?thesis
    using invoke_model_never_uncaught by blast
qed

theorem invoke_handler_raises_witness:
  "map_of MODEL_REGISTRY ''greeting-model'' = Some (greeting_model_handler :: nat handler) \<and>
   fst (greeting_model_handler [(''name'', JList [JInt (10 ^ int_max_str_digits)])] None (0::nat))
     = Inl (ValueError int_max_str_digits_message) \<and>
   fst (invoke_model \<lparr>model_id = ''greeting-model'',
                       context = [(''name'', JList [JInt (10 ^ int_max_str_digits)])],
                       parameters = None\<rparr> (0::nat))
     = Inl (HTTPException 500
         (JObj [(''model_id'', JStr ''greeting-model''),
                (''error'', JObj [(''code'', JInt 500),
                                  (''message'', JStr int_max_str_digits_message)])]))"
proof -
  have h1: "map_of MODEL_REGISTRY ''greeting-model'' = Some (greeting_model_handler :: nat handler)"
    by (simp add: MODEL_REGISTRY_def)
  have h2: "fst (greeting_model_handler [(''name'', JList [JInt (10 ^ int_max_str_digits)])]
                   None (0::nat))
      = Inl (ValueError int_max_str_digits_message)"
    by (simp add: greeting_model_handler_def dict_get_def int_to_str_limit)
  have "str_e (ValueError int_max_str_digits_message) = int_max_str_digits_message"
    by (simp add: ValueError_def)
  then show ?thesis
    using h1 h2 invoke_handler_raises [OF h1 h2] by simp
qed

section \<open>Validation\<close>

text \<open>Every request with fields of the declared types passes validation unchanged.\<close>

lemma validate_body_of: "validate_MCPRequest (body_of r) = Some r"
  by (cases "parameters r") (simp_all add: validate_MCPRequest_def body_of_def)

text \<open>
  C4. A request whose \<open>model_id\<close> is the empty string passes validation; the registry
  lookup is made and misses, and the outcome is the not-found \<open>HTTPException\<close> with
  status 404 and the message \<^verbatim>\<open>Model '' not found.\<close>, with the request and the state
  untouched.
\<close>

theorem empty_model_id_not_found:
  "validate_MCPRequest (body_of \<lparr>model_id = '''', context = c, parameters = p\<rparr>)
     = Some \<lparr>model_id = '''', context = c, parameters = p\<rparr>
   \<and> invoke_model \<lparr>model_id = '''', context = c, parameters = p\<rparr> s
       = (Inl (HTTPException 404
            (JObj [(''model_id'', JStr ''''),
                   (''error'', JObj [(''code'', JInt 404),
                      (''message'', JStr (''Model '' @ [CHR 0x27, CHR 0x27] @ '' not found.''))])])),
          \<lparr>model_id = '''', context = c, parameters = p\<rparr>, s)
   \<and> post_invoke (body_of \<lparr>model_id = '''', context = c, parameters = p\<rparr>) s
       = (Some (fst (invoke_model \<lparr>model_id = '''', context = c, parameters = p\<rparr> s)), s)"
  by (simp add: validate_body_of post_invoke_def invoke_model_def invoke_with_def
      map_of_MODEL_REGISTRY)

text \<open>
  The body \<^verbatim>\<open>{"model_id": "", "context": {}}\<close> is not rejected by validation: it is
  dispatched, and answered with 404.
\<close>

theorem empty_model_id_counterexample:
  "validate_MCPRequest (JObj [(''model_id'', JStr ''''), (''context'', JObj [])])
     = Some \<lparr>model_id = '''', context = [], parameters = None\<rparr>
   \<and> post_invoke (JObj [(''model_id'', JStr ''''), (''context'', JObj [])]) (0::nat)
       = (Some (Inl (HTTPException 404
            (JObj [(''model_id'', JStr ''''),
                   (''error'', JObj [(''code'', JInt 404),
                      (''message'', JStr (''Model '' @ [CHR 0x27, CHR 0x27] @ '' not found.''))])]))),
          0)"
  by (simp add: validate_MCPRequest_def post_invoke_def invoke_model_def invoke_with_def
      map_of_MODEL_REGISTRY)

section \<open>The two handlers\<close>



text \<open>
  C6. The echo handler returns exactly \<^verbatim>\<open>{"echo": c}\<close> for its context \<open>c\<close> and leaves
  \<open>c\<close> as it is; \<^verbatim>\<open>echo-model\<close> invoked on \<^verbatim>\<open>{"key": "value", "number": 123}\<close> gives
  the result \<^verbatim>\<open>{"echo": {"key": "value", "number": 123}}\<close>.
\<close>

theorem echo_returns_context:
  "echo_model_handler c p s = (Inr (JObj [(''echo'', JObj c)]), c, p, s)
   \<and> fst (invoke_model \<lparr>model_id = ''echo-model'',
                          context = [(''key'', JStr ''value''), (''number'', JInt 123)],
                          parameters = p\<rparr> s)
       = Inr (JObj [(''model_id'', JStr ''echo-model''),
                    (''result'', JObj [(''echo'',
                        JObj [(''key'', JStr ''value''), (''number'', JInt 123)])])])"
  by (simp add: echo_model_handler_def invoke_model_def invoke_with_def map_of_MODEL_REGISTRY)

text \<open>
  C7. A call of a handler of the registry leaves the context object, the parameters
  object and the state as they were; what the handler returns does not depend on the
  state, and a call of a handler after another one returns what it returns on the
  state before the first call.
\<close>

theorem handlers_leave_arguments_and_state:
  assumes "(m, h) \<in> set MODEL_REGISTRY" and "(m', h') \<in> set MODEL_REGISTRY"
  shows "snd (h c p s) = (c, p, s)
         \<and> fst (h c p s) = fst (h c p t)
         \<and> fst (h' c' p' (snd (snd (snd (h c p s))))) = fst (h' c' p' s)"
  using assms
  by (auto simp: MODEL_REGISTRY_def echo_model_handler_def greeting_model_handler_def Let_def)

theorem handlers_leave_arguments_and_state_witness:
  "(''greeting-model'', greeting_model_handler) \<in> set (MODEL_REGISTRY :: (string \<times> nat handler) list)
   \<and> (''echo-model'', echo_model_handler) \<in> set (MODEL_REGISTRY :: (string \<times> nat handler) list)
   \<and> snd (greeting_model_handler [(''name'', JStr ''Jules'')] (Some [(''k'', JNull)]) (0::nat))
       = ([(''name'', JStr ''Jules'')], Some [(''k'', JNull)], 0)
   \<and> fst (echo_model_handler [] None
            (snd (snd (snd (greeting_model_handler [(''name'', JStr ''Jules'')]
                              (Some [(''k'', JNull)]) (0::nat))))))
       = fst (echo_model_handler [] None (0::nat))"
proof -
  have g: "(''greeting-model'', greeting_model_handler) \<in> set (MODEL_REGISTRY :: (string \<times> nat handler) list)"
    by (simp add: MODEL_REGISTRY_def)
  have e: "(''echo-model'', echo_model_handler) \<in> set (MODEL_REGISTRY :: (string \<times> nat handler) list)"
    by (simp add: MODEL_REGISTRY_def)
  show ?thesis
    using g e handlers_leave_arguments_and_state [OF g e,
        of "[(''name'', JStr ''Jules'')]" "Some [(''k'', JNull)]" 0 0 "[]" None]
    by simp
qed

text \<open>
  C8. The outcome of \<open>invoke_model\<close> is the same for any two parameters values (and
  any two states): it is a function of the model id and the context. Neither handler's
  result depends on the parameters.
\<close>

theorem parameters_do_not_influence:
  "fst (invoke_model \<lparr>model_id = m, context = c, parameters = p1\<rparr> s1)
     = fst (invoke_model \<lparr>model_id = m, context = c, parameters = p2\<rparr> s2)
   \<and> fst (echo_model_handler c p1 s1) = fst (echo_model_handler c p2 s2)
   \<and> fst (greeting_model_handler c p1 s1) = fst (greeting_model_handler c p2 s2)"
  by (auto simp: invoke_model_outcome echo_model_handler_def greeting_model_handler_def Let_def
      split: sum.splits)

text \<open>
  C9. The keys of the registry are exactly \<^verbatim>\<open>echo-model\<close> and \<^verbatim>\<open>greeting-model\<close>.
  A request for \<^verbatim>\<open>echo-model\<close> gets the success envelope on every context. A request
  for \<^verbatim>\<open>greeting-model\<close> gets the success envelope when \<^verbatim>\<open>str\<close> of the name
  returns, as it does when the key is absent or bound to a string, and the 500 error
  with the message of the exception when \<^verbatim>\<open>str\<close> of the name raises.
\<close>

theorem registered_model_outcome:
  assumes "m \<in> {''echo-model'', ''greeting-model''}"
  shows "fst ` set (MODEL_REGISTRY :: (string \<times> 's handler) list) = {''echo-model'', ''greeting-model''}
         \<and> (m = ''echo-model'' \<longrightarrow>
               fst (invoke_model \<lparr>model_id = m, context = c, parameters = p\<rparr> (s::'s))
                 = Inr (JObj [(''model_id'', JStr m), (''result'', JObj [(''echo'', JObj c)])]))
         \<and> (m = ''greeting-model'' \<longrightarrow>
               fst (invoke_model \<lparr>model_id = m, context = c, parameters = p\<rparr> s)
                 = (case py_str (dict_get c ''name'' (JStr ''World'')) of
                      Inr txt \<Rightarrow>
                        Inr (JObj [(''model_id'', JStr m),
                                   (''result'', JObj [(''greeting'', JStr (''Hello, '' @ txt @ ''!''))])])
                    | Inl e \<Rightarrow>
                        Inl (HTTPException 500
                          (JObj [(''model_id'', JStr m),
                                 (''error'', JObj [(''code'', JInt 500),
                                                   (''message'', JStr (str_e e))])]))))
         \<and> (m = ''greeting-model'' \<and> (''name'' \<notin> fst ` set c \<or> (\<exists>n. map_of c ''name'' = Some (JStr n)))
               \<longrightarrow> (\<exists>v. fst (invoke_model \<lparr>model_id = m, context = c, parameters = p\<rparr> s)
                         = Inr (JObj [(''model_id'', JStr m), (''result'', v)])))"
proof (intro conjI impI)
  show "fst ` set (MODEL_REGISTRY :: (string \<times> 's handler) list) = {''echo-model'', ''greeting-model''}"
    by (simp add: MODEL_REGISTRY_def)
next
  assume "m = ''echo-model''"
  then show "fst (invoke_model \<lparr>model_id = m, context = c, parameters = p\<rparr> s)
      = Inr (JObj [(''model_id'', JStr m), (''result'', JObj [(''echo'', JObj c)])])"
    by (simp add: invoke_model_outcome)
next
  assume "m = ''greeting-model''"
  then show "fst (invoke_model \<lparr>model_id = m, context = c, parameters = p\<rparr> s)
      = (case py_str (dict_get c ''name'' (JStr ''World'')) of
           Inr txt \<Rightarrow>
             Inr (JObj [(''model_id'', JStr m),
                        (''result'', JObj [(''greeting'', JStr (''Hello, '' @ txt @ ''!''))])])
         | Inl e \<Rightarrow>
             Inl (HTTPException 500
               (JObj [(''model_id'', JStr m),
                      (''error'', JObj [(''code'', JInt 500),
                                        (''message'', JStr (str_e e))])])))"
    by (simp add: invoke_model_outcome split: sum.splits)
next
  assume g: "m = ''greeting-model'' \<and>
             (''name'' \<notin> fst ` set c \<or> (\<exists>n. map_of c ''name'' = Some (JStr n)))"
  then consider (absent) "map_of c ''name'' = None" | (bound) n where "map_of c ''name'' = Some (JStr n)"
    by (auto simp: map_of_eq_None_iff)
  then show "\<exists>v. fst (invoke_model \<lparr>model_id = m, context = c, parameters = p\<rparr> s)
                 = Inr (JObj [(''model_id'', JStr m), (''result'', v)])"
  proof cases
    case absent
    with g show ?thesis by (simp add: invoke_model_outcome dict_get_def)
  next
    case bound
    with g show ?thesis by (simp add: invoke_model_outcome dict_get_def)
  qed
qed

theorem registered_model_outcome_witness:
  "''echo-model'' \<in> {''echo-model'', ''greeting-model''}
   \<and> fst (invoke_model \<lparr>model_id = ''echo-model'', context = [(''name'', JList [JInt 1, JStr ''a''])],
                         parameters = None\<rparr> (0::nat))
       = Inr (JObj [(''model_id'', JStr ''echo-model''),
                    (''result'', JObj [(''echo'', JObj [(''name'', JList [JInt 1, JStr ''a''])])])])
   \<and> ''greeting-model'' \<in> {''echo-model'', ''greeting-model''}
   \<and> ''name'' \<notin> fst ` set ([(''who'', JStr ''Jules'')] :: dict)
   \<and> (\<exists>v. fst (invoke_model \<lparr>model_id = ''greeting-model'', context = [(''who'', JStr ''Jules'')],
                              parameters = None\<rparr> (0::nat))
            = Inr (JObj [(''model_id'', JStr ''greeting-model''), (''result'', v)]))"
proof -
  have e: "''echo-model'' \<in> {''echo-model'', ''greeting-model''}" by simp
  have g: "''greeting-model'' \<in> {''echo-model'', ''greeting-model''}" by simp
  have a: "''name'' \<notin> fst ` set ([(''who'', JStr ''Jules'')] :: dict)" by simp
  from registered_model_outcome [OF e, of "[(''name'', JList [JInt 1, JStr ''a''])]" None "0::nat"]
  have 1: "fst (invoke_model \<lparr>model_id = ''echo-model'',
                  context = [(''name'', JList [JInt 1, JStr ''a''])], parameters = None\<rparr> (0::nat))
       = Inr (JObj [(''model_id'', JStr ''echo-model''),
                    (''result'', JObj [(''echo'', JObj [(''name'', JList [JInt 1, JStr ''a''])])])])"
    by (elim conjE) (erule mp, rule refl)
  from registered_model_outcome [OF g, of "[(''who'', JStr ''Jules'')]" None "0::nat"]
  have 2: "\<exists>v. fst (invoke_model \<lparr>model_id = ''greeting-model'',
                  context = [(''who'', JStr ''Jules'')], parameters = None\<rparr> (0::nat))
            = Inr (JObj [(''model_id'', JStr ''greeting-model''), (''result'', v)])"
    using a by (elim conjE) (erule mp, intro conjI disjI1 refl)
  from e 1 g a 2 show ?thesis by (intro conjI)
qed

text \<open>
  A request for a key of the registry on which the handler raises and the 500 error is
  the outcome: \<^verbatim>\<open>greeting-model\<close> with \<^verbatim>\<open>name\<close> bound to the \<^verbatim>\<open>int\<close> \<open>10 ^ 4300\<close>,
  of 4301 digits.
\<close>

theorem registered_model_outcome_counterexample:
  "''greeting-model'' \<in> {''echo-model'', ''greeting-model''}
   \<and> fst (greeting_model_handler [(''name'', JInt (10 ^ int_max_str_digits))] None (0::nat))
       = Inl (ValueError int_max_str_digits_message)
   \<and> fst (invoke_model \<lparr>model_id = ''greeting-model'',
                         context = [(''name'', JInt (10 ^ int_max_str_digits))],
                         parameters = None\<rparr> (0::nat))
       = Inl (HTTPException 500
           (JObj [(''model_id'', JStr ''greeting-model''),
                  (''error'', JObj [(''code'', JInt 500),
                                    (''message'', JStr int_max_str_digits_message)])]))"
  by (simp add: invoke_model_outcome greeting_model_handler_def dict_get_def int_to_str_limit
      ValueError_def)



section \<open>The tests of the repository\<close>

text \<open>
  The requests of \<^verbatim>\<open>test_main.py\<close> through \<open>post_invoke\<close>, with the answers the tests
  assert: the echo and greeting results, 404 with the model id in the detail, and 422
  (\<open>None\<close>) for a body without \<^verbatim>\<open>model_id\<close> or without \<^verbatim>\<open>context\<close>.
\<close>

lemma test_invoke_echo_model:
  "fst (post_invoke (JObj [(''model_id'', JStr ''echo-model''),
          (''context'', JObj [(''key'', JStr ''value''), (''number'', JInt 123)])]) s)
     = Some (Inr (JObj [(''model_id'', JStr ''echo-model''),
         (''result'', JObj [(''echo'', JObj [(''key'', JStr ''value''), (''number'', JInt 123)])])]))"
  by (simp add: post_invoke_def validate_MCPRequest_def invoke_model_def invoke_with_def
      map_of_MODEL_REGISTRY echo_model_handler_def)

lemma test_invoke_greeting_model_with_name:
  "fst (post_invoke (JObj [(''model_id'', JStr ''greeting-model''),
          (''context'', JObj [(''name'', JStr ''Jules'')])]) s)
     = Some (Inr (JObj [(''model_id'', JStr ''greeting-model''),
         (''result'', JObj [(''greeting'', JStr ''Hello, Jules!'')])]))"
  by (simp add: post_invoke_def validate_MCPRequest_def invoke_model_def invoke_with_def
      map_of_MODEL_REGISTRY greeting_model_handler_def dict_get_def)

lemma test_invoke_greeting_model_default_name:
  "fst (post_invoke (JObj [(''model_id'', JStr ''greeting-model''), (''context'', JObj [])]) s)
     = Some (Inr (JObj [(''model_id'', JStr ''greeting-model''),
         (''result'', JObj [(''greeting'', JStr ''Hello, World!'')])]))"
  by (simp add: post_invoke_def validate_MCPRequest_def invoke_model_def invoke_with_def
      map_of_MODEL_REGISTRY greeting_model_handler_def dict_get_def)

lemma test_invoke_model_not_found:
  "fst (post_invoke (JObj [(''model_id'', JStr ''non-existent-model''), (''context'', JObj [])]) s)
     = Some (Inl (HTTPException 404
         (JObj [(''model_id'', JStr ''non-existent-model''),
                (''error'', JObj [(''code'', JInt 404),
                   (''message'', JStr (''Model '' @ [CHR 0x27] @ ''non-existent-model''
                                         @ [CHR 0x27] @ '' not found.''))])])))"
  by (simp add: post_invoke_def validate_MCPRequest_def invoke_model_def invoke_with_def
      map_of_MODEL_REGISTRY)

lemma test_invoke_malformed_request_missing_model_id:
  "post_invoke (JObj [(''context'', JObj [])]) s = (None, s)"
  by (simp add: post_invoke_def validate_MCPRequest_def)

lemma test_invoke_malformed_request_missing_context:
  "post_invoke (JObj [(''model_id'', JStr ''echo-model'')]) s = (None, s)"
  by (simp add: post_invoke_def validate_MCPRequest_def)

end
